theory Spec2Isabelle
  imports Complex_Main "HOL-Library.AList"
begin

section \<open>JavaScript values\<close>

text \<open>
  The values that flow through the client: parsed JSON bodies, request payloads and the
  results handed back to callers. \<open>JUndefined\<close> is JavaScript's \<open>undefined\<close> (the value of a
  property that is absent). A number is held as the text \<open>String(n)\<close> prints for it (\<open>''42''\<close>,
  \<open>''0.5''\<close>, \<open>''1e+21''\<close>, \<open>''NaN''\<close>), which determines the number up to the sign of zero. An
  object is the list of its own properties in insertion order; its values are data, never
  functions.
\<close>

datatype jsval =
    JUndefined
  | JNull
  | JBool bool
  | JNum string
  | JStr string
  | JArr "jsval list"
  | JObj "(string \<times> jsval) list"

text \<open>Truthiness, as \<open>!x\<close>, \<open>x || y\<close> and \<open>if (x)\<close> read it.\<close>

fun truthy :: "jsval \<Rightarrow> bool" where
  "truthy JUndefined = False"
| "truthy JNull = False"
| "truthy (JBool b) = b"
| "truthy (JNum n) = (n \<noteq> ''0'' \<and> n \<noteq> ''NaN'')"
| "truthy (JStr s) = (s \<noteq> [])"
| "truthy (JArr xs) = True"
| "truthy (JObj fs) = True"

text \<open>
  Decimal digits of an integer, for the template literal \<open>`${response.status}`\<close>: what
  JavaScript prints for every integer below \<open>10 ^ 21\<close> in magnitude (a status is an unsigned
  short in the Fetch standard).
\<close>

fun digits :: "nat \<Rightarrow> string" where
  "digits n = (if n < 10 then [''0123456789'' ! n]
               else digits (n div 10) @ [''0123456789'' ! (n mod 10)])"

declare digits.simps [simp del]

definition show_int :: "int \<Rightarrow> string" where
  "show_int i = (if i < 0 then CHR ''-'' # digits (nat (- i)) else digits (nat i))"

fun join_comma :: "string list \<Rightarrow> string" where
  "join_comma [] = []"
| "join_comma [s] = s"
| "join_comma (s # t # ss) = s @ CHR '','' # join_comma (t # ss)"

text \<open>\<open>String.prototype.includes\<close>: does \<open>sub\<close> occur in \<open>s\<close> as a contiguous substring?\<close>

fun includes_str :: "string \<Rightarrow> string \<Rightarrow> bool" where
  "includes_str [] sub = (sub = [])"
| "includes_str (c # cs) sub = (take (length sub) (c # cs) = sub \<or> includes_str cs sub)"

section \<open>The error taxonomy\<close>

text \<open>
  A value of type \<open>unknown\<close> as \<open>catch (error)\<close>, \<open>getErrorMessage\<close> and \<open>isRetryableError\<close>
  receive it. The three custom classes keep their constructor arguments in source order:
  \<open>ApiError status statusText message endpoint\<close>, \<open>NetworkError message endpoint\<close>,
  \<open>ValidationError message field\<close>. \<open>TypeError m\<close> is the built-in class, \<open>Error m\<close> stands for
  every other \<open>Error\<close> instance (a plain \<open>Error\<close>, a \<open>SyntaxError\<close>, ...) with message \<open>m\<close>, and
  \<open>Value v\<close> is a thrown value that is no \<open>Error\<close> instance at all.
\<close>

datatype thrown =
    ApiError int string string string
  | NetworkError string string
  | ValidationError string "string option"
  | TypeError string
  | Error string
  | Value jsval

fun instanceof_Error :: "thrown \<Rightarrow> bool" where
  "instanceof_Error (Value v) = False"
| "instanceof_Error e = True"

fun message :: "thrown \<Rightarrow> string" where
  "message (ApiError s st m ep) = m"
| "message (NetworkError m ep) = m"
| "message (ValidationError m f) = m"
| "message (TypeError m) = m"
| "message (Error m) = m"
| "message (Value v) = []"

text \<open>
  \<open>String(x)\<close>, which the \<open>Error\<close> constructor applies to its message argument (\<open>super(message)\<close>
  in the three classes). An array joins its elements with commas, \<open>null\<close> and \<open>undefined\<close>
  elements printing as the empty string. An object is converted by its \<open>toString\<close> method: a
  plain object inherits the one that prints \<open>[object Object]\<close>, but an own property named
  \<open>toString\<close> hides it, and since its value is data and not callable (and \<open>valueOf\<close> gives no
  primitive either) the conversion throws a \<open>TypeError\<close>. The first element of an array whose
  conversion throws makes the whole conversion throw.
\<close>

fun collect :: "(thrown + string) list \<Rightarrow> thrown + string list" where
  "collect [] = Inr []"
| "collect (Inl e # rs) = Inl e"
| "collect (Inr x # rs) = (case collect rs of Inl e \<Rightarrow> Inl e | Inr xs \<Rightarrow> Inr (x # xs))"

fun toString :: "jsval \<Rightarrow> thrown + string" where
  "toString JUndefined = Inr ''undefined''"
| "toString JNull = Inr ''null''"
| "toString (JBool b) = Inr (if b then ''true'' else ''false'')"
| "toString (JNum n) = Inr n"
| "toString (JStr s) = Inr s"
| "toString (JArr xs) =
     (case collect (map (\<lambda>x. if x = JNull \<or> x = JUndefined then Inr [] else toString x) xs) of
        Inl e \<Rightarrow> Inl e
      | Inr strs \<Rightarrow> Inr (join_comma strs))"
| "toString (JObj fs) =
     (if ''toString'' \<in> set (map fst fs)
      then Inl (TypeError ''Cannot convert object to primitive value'')
      else Inr ''[object Object]'')"

text \<open>\<open>isRetryableError\<close> (apiService.ts, lines 485-495).\<close>

fun isRetryableError :: "thrown \<Rightarrow> bool" where
  "isRetryableError (NetworkError m ep) = True"
| "isRetryableError (ApiError s st m ep) = (s \<in> set [408, 429, 502, 503, 504])"
| "isRetryableError e = False"

text \<open>\<open>getErrorMessage\<close> (apiService.ts, lines 447-482).\<close>

fun getErrorMessage :: "thrown \<Rightarrow> string" where
  "getErrorMessage (ValidationError m f) = m"
| "getErrorMessage (NetworkError m ep) =
     ''Unable to connect to the server. Please check your internet connection and try again.''"
| "getErrorMessage (ApiError s st m ep) =
     (if s = 401 then ''Please log in to continue.''
      else if s = 403 then ''You do not have permission to perform this action.''
      else if s = 404 then ''The requested resource was not found.''
      else if s = 429 then ''Too many requests. Please wait a moment and try again.''
      else if s = 500 then ''A server error occurred. Please try again later.''
      else if s = 502 \<or> s = 503 \<or> s = 504
        then ''The service is temporarily unavailable. Please try again later.''
      else if m \<noteq> [] then m else ''An unexpected error occurred.'')"
| "getErrorMessage (TypeError m) = m"
| "getErrorMessage (Error m) = m"
| "getErrorMessage (Value v) = ''An unexpected error occurred.''"

section \<open>The Request Engine\<close>

text \<open>
  The build-time environment \<open>import.meta.env\<close>: \<open>PROD\<close> (here \<open>is_PROD\<close>) selects the base URL, \<open>MODE\<close> is
  read by \<open>delay\<close>.
\<close>

record env =
  is_PROD :: bool
  MODE :: string

definition API_BASE_URL :: "env \<Rightarrow> string" where
  "API_BASE_URL e =
     (if is_PROD e then ''https://your-function-app.azurewebsites.net/api''
      else ''http://localhost:7071/api'')"

text \<open>
  The \<open>RequestInit\<close> members the client uses; \<open>None\<close> is an absent key. The body is kept as
  the value handed to \<open>JSON.stringify\<close>.
\<close>

record RequestInit =
  http_method :: "string option"
  headers :: "(string \<times> string) list option"
  body :: "jsval option"

definition no_options :: RequestInit where
  "no_options = \<lparr>http_method = None, headers = None, body = None\<rparr>"

text \<open>
  What the transport hands back for one \<open>fetch\<close> call: a response, of which the client reads
  \<open>ok\<close>, \<open>status\<close>, \<open>statusText\<close>, \<open>headers.get('content-type')\<close> and the settled result of
  \<open>json()\<close>, or a rejection.
\<close>

record response =
  ok :: bool
  status :: int
  statusText :: string
  content_type :: "string option"
  json :: "thrown + jsval"

datatype fetch_outcome = Resolved response | Rejected thrown

text \<open>What a call does to the outside world, in order.\<close>

datatype event = Fetch string RequestInit | Timeout rat

text \<open>Object spread over property lists: a later key replaces the value of an earlier one.\<close>

definition spread :: "(string \<times> 'v) list \<Rightarrow> (string \<times> 'v) list \<Rightarrow> (string \<times> 'v) list" where
  "spread base extra = fold (\<lambda>(k, v). AList.update k v) extra base"

text \<open>
  The second argument of \<open>fetch\<close> (lines 89-95):
  \<open>{ headers: { 'Content-Type': 'application/json', ...options.headers }, ...options }\<close>.
  The outer spread copies every key \<open>options\<close> has, \<open>headers\<close> included, over the object
  built so far.
\<close>

definition spread_options :: "RequestInit \<Rightarrow> RequestInit \<Rightarrow> RequestInit" where
  "spread_options base options =
     \<lparr>http_method = (case http_method options of Some m \<Rightarrow> Some m | None \<Rightarrow> http_method base),
      headers = (case headers options of Some h \<Rightarrow> Some h | None \<Rightarrow> headers base),
      body = (case body options of Some b \<Rightarrow> Some b | None \<Rightarrow> body base)\<rparr>"

definition fetch_init :: "RequestInit \<Rightarrow> RequestInit" where
  "fetch_init options =
     spread_options
       \<lparr>http_method = None,
        headers = Some (spread [(''Content-Type'', ''application/json'')]
                          (case headers options of None \<Rightarrow> [] | Some h \<Rightarrow> h)),
        body = None\<rparr>
       options"

text \<open>
  \<open>delay\<close> (lines 177-181): the duration handed to \<open>setTimeout\<close>, in milliseconds.
\<close>

definition delay :: "env \<Rightarrow> rat \<Rightarrow> rat" where
  "delay e ms = (if MODE e = ''test'' then ms / 10 else ms)"

text \<open>
  Property access \<open>x.name\<close> for a name that no prototype defines (\<open>message\<close>, \<open>error\<close>, the
  field names of the payloads): a \<open>TypeError\<close> on \<open>null\<close> and \<open>undefined\<close>, the own property of
  an object, \<open>undefined\<close> otherwise.
\<close>

fun property :: "jsval \<Rightarrow> string \<Rightarrow> thrown + jsval" where
  "property JUndefined name =
     Inl (TypeError (''Cannot read properties of undefined (reading '' @ [CHR 0x27] @ name
                       @ [CHR 0x27] @ '')''))"
| "property JNull name =
     Inl (TypeError (''Cannot read properties of null (reading '' @ [CHR 0x27] @ name
                       @ [CHR 0x27] @ '')''))"
| "property (JObj fs) name = Inr (case map_of fs name of None \<Rightarrow> JUndefined | Some v \<Rightarrow> v)"
| "property x name = Inr JUndefined"

text \<open>
  Lines 109-116: the message of a failed response, \<open>errorData.message || errorData.error\<close> when
  the body parses and one of them is truthy, the status line otherwise.
\<close>

definition error_message :: "response \<Rightarrow> jsval" where
  "error_message r =
     (let errorMessage = JStr (''Request failed: '' @ show_int (status r) @ '' '' @ statusText r) in
      case json r of
        Inl e \<Rightarrow> errorMessage
      | Inr errorData \<Rightarrow>
          (case property errorData ''message'' of
             Inl e \<Rightarrow> errorMessage
           | Inr m \<Rightarrow>
               if truthy m then m
               else (case property errorData ''error'' of
                       Inl e \<Rightarrow> errorMessage
                     | Inr er \<Rightarrow> if truthy er then er else errorMessage)))"

text \<open>
  One pass through the loop body ends in \<open>return\<close>, in \<open>throw\<close>, or in \<open>continue\<close> after a
  backoff wait of the given number of milliseconds.
\<close>

datatype step = Return jsval | Throw thrown | Continue rat

text \<open>Lines 98-106: a response with \<open>ok\<close> set.\<close>

definition ok_branch :: "response \<Rightarrow> step" where
  "ok_branch r =
     (case content_type r of
        None \<Rightarrow> Return JNull
      | Some contentType \<Rightarrow>
          if contentType \<noteq> [] \<and> includes_str contentType ''application/json''
          then (case json r of Inl e \<Rightarrow> Throw e | Inr v \<Rightarrow> Return v)
          else Return JNull)"

text \<open>
  \<open>new ValidationError(errorMessage)\<close> and \<open>new ApiError(..., errorMessage, ...)\<close>: the
  constructor converts the message to a string, and a conversion that throws is thrown from
  the \<open>try\<close> block in place of the error under construction.
\<close>

definition throw_with_message :: "jsval \<Rightarrow> (string \<Rightarrow> thrown) \<Rightarrow> step" where
  "throw_with_message errorMessage build =
     (case toString errorMessage of
        Inl e \<Rightarrow> Throw e
      | Inr m \<Rightarrow> Throw (build m))"

text \<open>Lines 118-154: the \<open>switch\<close> over the status of a response that is not \<open>ok\<close>.\<close>

definition status_switch :: "string \<Rightarrow> response \<Rightarrow> nat \<Rightarrow> nat \<Rightarrow> step" where
  "status_switch endpoint r attempt retries =
     (let errorMessage = error_message r in
      if status r = 400 then throw_with_message errorMessage (\<lambda>m. ValidationError m None)
      else if status r = 401 then
        Throw (ApiError 401 ''Unauthorized'' ''Authentication required'' endpoint)
      else if status r = 403 then Throw (ApiError 403 ''Forbidden'' ''Access denied'' endpoint)
      else if status r = 404 then
        Throw (ApiError 404 ''Not Found'' (''Resource not found: '' @ endpoint) endpoint)
      else if status r = 409 then
        throw_with_message errorMessage (\<lambda>m. ApiError (status r) (statusText r) m endpoint)
      else if status r = 429 then
        (if attempt < retries then Continue (2 ^ attempt * 1000)
         else Throw (ApiError 429 ''Too Many Requests'' ''Rate limit exceeded'' endpoint))
      else if status r = 500 then
        Throw (ApiError 500 ''Internal Server Error'' ''Server error occurred'' endpoint)
      else if status r = 502 \<or> status r = 503 \<or> status r = 504 then
        (if attempt < retries then Continue (2 ^ attempt * 1000)
         else Throw (ApiError (status r) (statusText r) ''Service temporarily unavailable'' endpoint))
      else throw_with_message errorMessage (\<lambda>m. ApiError (status r) (statusText r) m endpoint))"

text \<open>Lines 88-154: the \<open>try\<close> block, given what \<open>fetch\<close> settled to.\<close>

definition try_block :: "string \<Rightarrow> fetch_outcome \<Rightarrow> nat \<Rightarrow> nat \<Rightarrow> step" where
  "try_block endpoint outcome attempt retries =
     (case outcome of
        Rejected e \<Rightarrow> Throw e
      | Resolved r \<Rightarrow> if ok r then ok_branch r else status_switch endpoint r attempt retries)"

text \<open>Lines 155-173: the \<open>catch\<close> clause.\<close>

fun is_custom :: "thrown \<Rightarrow> bool" where
  "is_custom (ApiError s st m ep) = True"
| "is_custom (ValidationError m f) = True"
| "is_custom (NetworkError m ep) = True"
| "is_custom e = False"

fun is_fetch_TypeError :: "thrown \<Rightarrow> bool" where
  "is_fetch_TypeError (TypeError m) = includes_str m ''fetch''"
| "is_fetch_TypeError e = False"

definition catch_block :: "string \<Rightarrow> thrown \<Rightarrow> nat \<Rightarrow> nat \<Rightarrow> step" where
  "catch_block endpoint e attempt retries =
     (if is_fetch_TypeError e then
        (if attempt < retries then Continue (2 ^ attempt * 1000)
         else Throw (NetworkError
                ''Network connection failed. Please check your internet connection.'' endpoint))
      else if is_custom e then Throw e
      else Throw (Error (''Unexpected error: '' @
                    (if instanceof_Error e then message e else ''Unknown error''))))"

definition attempt_step :: "string \<Rightarrow> fetch_outcome \<Rightarrow> nat \<Rightarrow> nat \<Rightarrow> step" where
  "attempt_step endpoint outcome attempt retries =
     (case try_block endpoint outcome attempt retries of
        Throw e \<Rightarrow> catch_block endpoint e attempt retries
      | s \<Rightarrow> s)"

text \<open>
  \<open>request\<close> (lines 84-175). The transport is the script of what the successive \<open>fetch\<close> calls
  of this request settle to: \<open>transport i\<close> answers the call made in iteration \<open>attempt = i\<close>.
  The result pairs what the promise settles to (\<open>Inl\<close> a rejection) with the events of the
  call. Falling out of the loop would resolve to \<open>undefined\<close>; no path of the last iteration
  continues, so that branch is never taken from \<open>attempt = 0\<close>.
\<close>

function request_loop ::
  "env \<Rightarrow> (nat \<Rightarrow> fetch_outcome) \<Rightarrow> string \<Rightarrow> RequestInit \<Rightarrow> nat \<Rightarrow> nat
     \<Rightarrow> (thrown + jsval) \<times> event list" where
  "request_loop e transport endpoint options retries attempt =
     (if attempt \<le> retries then
        (case attempt_step endpoint (transport attempt) attempt retries of
           Return v \<Rightarrow> (Inr v, [Fetch (API_BASE_URL e @ endpoint) (fetch_init options)])
         | Throw err \<Rightarrow> (Inl err, [Fetch (API_BASE_URL e @ endpoint) (fetch_init options)])
         | Continue ms \<Rightarrow>
             (case request_loop e transport endpoint options retries (Suc attempt) of
                (res, evs) \<Rightarrow>
                  (res, Fetch (API_BASE_URL e @ endpoint) (fetch_init options)
                          # Timeout (delay e ms) # evs)))
      else (Inr JUndefined, []))"
  by pat_completeness auto
termination
  by (relation "measure (\<lambda>(e, transport, endpoint, options, retries, attempt). Suc retries - attempt)")
     auto

declare request_loop.simps [simp del]

definition request ::
  "env \<Rightarrow> (nat \<Rightarrow> fetch_outcome) \<Rightarrow> string \<Rightarrow> RequestInit \<Rightarrow> nat \<Rightarrow> (thrown + jsval) \<times> event list" where
  "request e transport endpoint options retries =
     request_loop e transport endpoint options retries 0"

section \<open>The Typed Client Facade\<close>

text \<open>
  \<open>validateRequired\<close> (lines 184-190): \<open>None\<close> when every field of the list is truthy in
  \<open>data\<close>, the thrown value otherwise.
\<close>

fun validateRequired :: "jsval \<Rightarrow> string list \<Rightarrow> thrown option" where
  "validateRequired data [] = None"
| "validateRequired data (field # requiredFields) =
     (case property data field of
        Inl e \<Rightarrow> Some e
      | Inr v \<Rightarrow>
          if \<not> truthy v then Some (ValidationError (field @ '' is required'') (Some field))
          else validateRequired data requiredFields)"

text \<open>
  \<open>encodeURIComponent\<close> on a string held as its UTF-8 bytes: the unreserved characters
  \<open>A-Z a-z 0-9 - _ . ! ~ * ' ( )\<close> stand for themselves, every other byte is written
  \<open>%XX\<close>.
\<close>

definition unreserved :: "char \<Rightarrow> bool" where
  "unreserved c =
     (c \<in> set (''ABCDEFGHIJKLMNOPQRSTUVWXYZabcdefghijklmnopqrstuvwxyz0123456789-_.!~*()'' @ [CHR 0x27]))"

definition encode_char :: "char \<Rightarrow> string" where
  "encode_char c =
     (if unreserved c then [c]
      else [CHR ''%'', ''0123456789ABCDEF'' ! (of_char c div 16),
            ''0123456789ABCDEF'' ! (of_char c mod 16)])"

definition encodeURIComponent :: "string \<Rightarrow> string" where
  "encodeURIComponent s = concat (map encode_char s)"

text \<open>\<open>error instanceof ApiError && error.status === n\<close>.\<close>

fun is_ApiError_status :: "thrown \<Rightarrow> int \<Rightarrow> bool" where
  "is_ApiError_status (ApiError s st m ep) n = (s = n)"
| "is_ApiError_status e n = False"

text \<open>
  The recurring \<open>try { return await this.request(...) } catch (error) { if (error instanceof
  ApiError && error.status === n) ...; throw error }\<close>: the settled request with a rejection
  by an \<open>ApiError\<close> of status \<open>n\<close> replaced, every other outcome passed on.
\<close>

definition remap_status ::
  "int \<Rightarrow> thrown + jsval \<Rightarrow> (thrown + jsval) \<times> event list \<Rightarrow> (thrown + jsval) \<times> event list" where
  "remap_status n replacement settled =
     (case settled of
        (Inl err, evs) \<Rightarrow> if is_ApiError_status err n then (replacement, evs) else (Inl err, evs)
      | (Inr v, evs) \<Rightarrow> (Inr v, evs))"

type_synonym transport = "nat \<Rightarrow> fetch_outcome"
type_synonym settled = "(thrown + jsval) \<times> event list"

text \<open>The options literal \<open>{ method: m, body: JSON.stringify(b) }\<close>, the body left out for \<open>None\<close>.\<close>

definition send :: "string \<Rightarrow> jsval option \<Rightarrow> RequestInit" where
  "send m b = \<lparr>http_method = Some m, headers = None, body = b\<rparr>"

subsection \<open>Users (lines 193-276)\<close>

text \<open>The parameter \<open>id\<close> of the source is written \<open>ident\<close>.\<close>

definition createUser :: "env \<Rightarrow> transport \<Rightarrow> (string \<times> jsval) list \<Rightarrow> settled" where
  "createUser e t userData =
     (case validateRequired (JObj userData) [''username'', ''email'', ''displayName''] of
        Some err \<Rightarrow> (Inl err, [])
      | None \<Rightarrow>
          remap_status 409 (Inl (ValidationError ''Username or email already exists'' None))
            (request e t ''/users'' (send ''POST'' (Some (JObj userData))) 3))"

definition getUser :: "env \<Rightarrow> transport \<Rightarrow> string \<Rightarrow> settled" where
  "getUser e t ident =
     (if ident = [] then (Inl (ValidationError ''User ID is required'' None), [])
      else remap_status 404 (Inl (ValidationError ''User not found'' None))
             (request e t (''/users/'' @ ident) no_options 3))"

definition getUserByEmail :: "env \<Rightarrow> transport \<Rightarrow> string \<Rightarrow> settled" where
  "getUserByEmail e t email =
     (if email = [] then (Inl (ValidationError ''Email is required'' None), [])
      else remap_status 404 (Inl (ValidationError ''User with this email not found'' None))
             (request e t (''/users/email/'' @ encodeURIComponent email) no_options 3))"

definition getUserByUsername :: "env \<Rightarrow> transport \<Rightarrow> string \<Rightarrow> settled" where
  "getUserByUsername e t username =
     (if username = [] then (Inl (ValidationError ''Username is required'' None), [])
      else remap_status 404 (Inl (ValidationError ''User with this username not found'' None))
             (request e t (''/users/username/'' @ encodeURIComponent username) no_options 3))"

definition updateUser :: "env \<Rightarrow> transport \<Rightarrow> string \<Rightarrow> (string \<times> jsval) list \<Rightarrow> settled" where
  "updateUser e t ident updates =
     (if ident = [] then (Inl (ValidationError ''User ID is required'' None), [])
      else if length (map fst updates) = 0 then
        (Inl (ValidationError ''Update data is required'' None), [])
      else request e t (''/users/'' @ ident) (send ''PUT'' (Some (JObj updates))) 3)"

definition deleteUser :: "env \<Rightarrow> transport \<Rightarrow> string \<Rightarrow> settled" where
  "deleteUser e t ident =
     (if ident = [] then (Inl (ValidationError ''User ID is required'' None), [])
      else request e t (''/users/'' @ ident) (send ''DELETE'' None) 3)"

subsection \<open>Series (lines 279-368)\<close>

definition createSeries :: "env \<Rightarrow> transport \<Rightarrow> (string \<times> jsval) list \<Rightarrow> settled" where
  "createSeries e t seriesData =
     (case validateRequired (JObj seriesData) [''title'', ''userId'', ''genre''] of
        Some err \<Rightarrow> (Inl err, [])
      | None \<Rightarrow> request e t ''/series'' (send ''POST'' (Some (JObj seriesData))) 3)"

definition getSeries :: "env \<Rightarrow> transport \<Rightarrow> string \<Rightarrow> string \<Rightarrow> settled" where
  "getSeries e t ident userId =
     (if ident = [] \<or> userId = [] then
        (Inl (ValidationError ''Series ID and User ID are required'' None), [])
      else request e t (''/series/'' @ ident @ ''/'' @ userId) no_options 3)"

definition getUserSeries :: "env \<Rightarrow> transport \<Rightarrow> string \<Rightarrow> settled" where
  "getUserSeries e t userId =
     (if userId = [] then (Inl (ValidationError ''User ID is required'' None), [])
      else remap_status 404 (Inr (JArr [])) (request e t (''/series/user/'' @ userId) no_options 3))"


definition updateSeries ::
  "env \<Rightarrow> transport \<Rightarrow> string \<Rightarrow> string \<Rightarrow> (string \<times> jsval) list \<Rightarrow> settled" where
  "updateSeries e t ident userId updates =
     (if ident = [] \<or> userId = [] then
        (Inl (ValidationError ''Series ID and User ID are required'' None), [])
      else if length (map fst updates) = 0 then
        (Inl (ValidationError ''Update data is required'' None), [])
      else request e t (''/series/'' @ ident @ ''/'' @ userId) (send ''PUT'' (Some (JObj updates))) 3)"

definition deleteSeries :: "env \<Rightarrow> transport \<Rightarrow> string \<Rightarrow> string \<Rightarrow> settled" where
  "deleteSeries e t ident userId =
     (if ident = [] \<or> userId = [] then
        (Inl (ValidationError ''Series ID and User ID are required'' None), [])
      else request e t (''/series/'' @ ident @ ''/'' @ userId) (send ''DELETE'' None) 3)"

definition likeSeries :: "env \<Rightarrow> transport \<Rightarrow> string \<Rightarrow> string \<Rightarrow> string \<Rightarrow> settled" where
  "likeSeries e t seriesId seriesUserId userId =
     (if seriesId = [] \<or> seriesUserId = [] \<or> userId = [] then
        (Inl (ValidationError ''Series ID, Series User ID, and User ID are required'' None), [])
      else request e t (''/series/'' @ seriesId @ ''/'' @ seriesUserId @ ''/like'')
             (send ''POST'' (Some (JObj [(''userId'', JStr userId)]))) 3)"

definition unlikeSeries :: "env \<Rightarrow> transport \<Rightarrow> string \<Rightarrow> string \<Rightarrow> string \<Rightarrow> settled" where
  "unlikeSeries e t seriesId seriesUserId userId =
     (if seriesId = [] \<or> seriesUserId = [] \<or> userId = [] then
        (Inl (ValidationError ''Series ID, Series User ID, and User ID are required'' None), [])
      else request e t (''/series/'' @ seriesId @ ''/'' @ seriesUserId @ ''/unlike'')
             (send ''POST'' (Some (JObj [(''userId'', JStr userId)]))) 3)"

subsection \<open>Friends (lines 371-401)\<close>

definition getFriends :: "env \<Rightarrow> transport \<Rightarrow> string \<Rightarrow> settled" where
  "getFriends e t userId = request e t (''/users/'' @ userId @ ''/friends'') no_options 3"

definition addFriend :: "env \<Rightarrow> transport \<Rightarrow> string \<Rightarrow> string \<Rightarrow> settled" where
  "addFriend e t userId friendId =
     request e t (''/users/'' @ userId @ ''/friends/'' @ friendId) (send ''POST'' None) 3"

definition removeFriend :: "env \<Rightarrow> transport \<Rightarrow> string \<Rightarrow> string \<Rightarrow> settled" where
  "removeFriend e t userId friendId =
     request e t (''/users/'' @ userId @ ''/friends/'' @ friendId) (send ''DELETE'' None) 3"

definition getFriendRequests :: "env \<Rightarrow> transport \<Rightarrow> string \<Rightarrow> settled" where
  "getFriendRequests e t userId = request e t (''/users/'' @ userId @ ''/friend-requests'') no_options 3"

definition acceptFriendRequest :: "env \<Rightarrow> transport \<Rightarrow> string \<Rightarrow> string \<Rightarrow> settled" where
  "acceptFriendRequest e t userId friendId =
     request e t (''/users/'' @ userId @ ''/friend-requests/'' @ friendId @ ''/accept'')
       (send ''POST'' None) 3"

definition rejectFriendRequest :: "env \<Rightarrow> transport \<Rightarrow> string \<Rightarrow> string \<Rightarrow> settled" where
  "rejectFriendRequest e t userId friendId =
     request e t (''/users/'' @ userId @ ''/friend-requests/'' @ friendId @ ''/reject'')
       (send ''POST'' None) 3"

subsection \<open>Favorite lists (lines 404-443)\<close>

definition createFavoriteList ::
  "env \<Rightarrow> transport \<Rightarrow> string \<Rightarrow> (string \<times> jsval) list \<Rightarrow> settled" where
  "createFavoriteList e t userId listData =
     request e t (''/users/'' @ userId @ ''/favorites'') (send ''POST'' (Some (JObj listData))) 3"

definition getFavoriteLists :: "env \<Rightarrow> transport \<Rightarrow> string \<Rightarrow> settled" where
  "getFavoriteLists e t userId = request e t (''/users/'' @ userId @ ''/favorites'') no_options 3"

definition getFavoriteList :: "env \<Rightarrow> transport \<Rightarrow> string \<Rightarrow> string \<Rightarrow> settled" where
  "getFavoriteList e t userId listId =
     request e t (''/users/'' @ userId @ ''/favorites/'' @ listId) no_options 3"

definition updateFavoriteList ::
  "env \<Rightarrow> transport \<Rightarrow> string \<Rightarrow> string \<Rightarrow> (string \<times> jsval) list \<Rightarrow> settled" where
  "updateFavoriteList e t userId listId updates =
     request e t (''/users/'' @ userId @ ''/favorites/'' @ listId)
       (send ''PUT'' (Some (JObj updates))) 3"

definition deleteFavoriteList :: "env \<Rightarrow> transport \<Rightarrow> string \<Rightarrow> string \<Rightarrow> settled" where
  "deleteFavoriteList e t userId listId =
     request e t (''/users/'' @ userId @ ''/favorites/'' @ listId) (send ''DELETE'' None) 3"

definition addSeriesToFavoriteList ::
  "env \<Rightarrow> transport \<Rightarrow> string \<Rightarrow> string \<Rightarrow> string \<Rightarrow> settled" where
  "addSeriesToFavoriteList e t userId listId seriesId =
     request e t (''/users/'' @ userId @ ''/favorites/'' @ listId @ ''/series'')
       (send ''POST'' (Some (JObj [(''seriesId'', JStr seriesId)]))) 3"

definition removeSeriFromFavoriteList ::
  "env \<Rightarrow> transport \<Rightarrow> string \<Rightarrow> string \<Rightarrow> string \<Rightarrow> settled" where
  "removeSeriFromFavoriteList e t userId listId seriesId =
     request e t (''/users/'' @ userId @ ''/favorites/'' @ listId @ ''/series/'' @ seriesId)
       (send ''DELETE'' None) 3"

section \<open>The Stateful Call Adapter\<close>

text \<open>
  The three \<open>useState\<close> cells of \<open>useApi\<close> (useApi.ts, lines 11-13). \<open>error\<close> holds a display
  message or \<open>null\<close>; \<open>data\<close> holds \<open>JNull\<close> for \<open>null\<close>.
\<close>

record CallState =
  loading :: bool
  error :: "string option"
  data :: jsval

definition useApi_initial :: CallState where
  "useApi_initial = \<lparr>loading = False, error = None, data = JNull\<rparr>"

text \<open>
  The optional callbacks. A callback is what it does when called: \<open>None\<close> when it returns,
  \<open>Some x\<close> when it throws \<open>x\<close>.
\<close>

record UseApiOptions =
  onSuccess :: "(jsval \<Rightarrow> thrown option) option"
  onError :: "(string \<Rightarrow> thrown option) option"

definition call_back :: "('a \<Rightarrow> thrown option) option \<Rightarrow> 'a \<Rightarrow> thrown option" where
  "call_back cb x = (case cb of None \<Rightarrow> None | Some f \<Rightarrow> f x)"

text \<open>
  Lines 28-42: the \<open>catch\<close> clause, followed by \<open>finally\<close>. It returns what \<open>execute\<close> rejects
  with and the state after \<open>setError\<close> and after \<open>setLoading(false)\<close>.
\<close>

definition execute_catch ::
  "UseApiOptions \<Rightarrow> thrown \<Rightarrow> CallState \<Rightarrow> (thrown + jsval) \<times> CallState list" where
  "execute_catch opts err s =
     (let errorMessage = getErrorMessage err;
          s' = s\<lparr>error := Some errorMessage\<rparr>
      in case call_back (onError opts) errorMessage of
           None \<Rightarrow> (Inl err, [s', s'\<lparr>loading := False\<rparr>])
         | Some err' \<Rightarrow> (Inl err', [s', s'\<lparr>loading := False\<rparr>]))"

text \<open>
  \<open>execute\<close> (lines 15-43), with the state after each of its setter calls, in order.
  \<open>apiCall\<close> is given by what calling it settles to and the events it causes. The first two
  setters, \<open>setLoading(true)\<close> and \<open>setError(null)\<close>, run before the call is awaited: the
  second state of the list is the state while the call is pending. The last state is the
  one \<open>finally\<close> leaves.
\<close>

definition execute_run ::
  "UseApiOptions \<Rightarrow> settled \<Rightarrow> CallState \<Rightarrow> (thrown + jsval) \<times> CallState list \<times> event list" where
  "execute_run opts apiCall s =
     (let s1 = s\<lparr>loading := True\<rparr>;
          s2 = s1\<lparr>error := None\<rparr>
      in case fst apiCall of
           Inr result \<Rightarrow>
             (let s3 = s2\<lparr>data := result\<rparr> in
              case call_back (onSuccess opts) result of
                None \<Rightarrow> (Inr result, [s1, s2, s3, s3\<lparr>loading := False\<rparr>], snd apiCall)
              | Some err \<Rightarrow>
                  (case execute_catch opts err s3 of
                     (res, states) \<Rightarrow> (res, [s1, s2, s3] @ states, snd apiCall)))
         | Inl err \<Rightarrow>
             (case execute_catch opts err s2 of
                (res, states) \<Rightarrow> (res, [s1, s2] @ states, snd apiCall)))"

text \<open>\<open>execute\<close> as a caller sees it once it has settled: the result, the state, the events.\<close>

definition execute ::
  "UseApiOptions \<Rightarrow> settled \<Rightarrow> CallState \<Rightarrow> (thrown + jsval) \<times> CallState \<times> event list" where
  "execute opts apiCall s =
     (case execute_run opts apiCall s of (res, states, evs) \<Rightarrow> (res, last states, evs))"

text \<open>
  \<open>retry\<close> (lines 45-50): \<open>error\<close> is the state cell, a string or \<open>null\<close>, and that is the value
  \<open>isRetryableError\<close> is called with.
\<close>

definition retry ::
  "UseApiOptions \<Rightarrow> settled \<Rightarrow> CallState \<Rightarrow> (thrown + jsval) \<times> CallState \<times> event list" where
  "retry opts apiCall s =
     (case error s of
        Some msg \<Rightarrow>
          if msg \<noteq> [] \<and> isRetryableError (Value (JStr msg)) then execute opts apiCall s
          else (Inl (Error ''Cannot retry this operation''), s, [])
      | None \<Rightarrow> (Inl (Error ''Cannot retry this operation''), s, []))"


section \<open>Counting transport invocations\<close>

fun is_Fetch :: "event \<Rightarrow> bool" where
  "is_Fetch (Fetch u i) = True"
| "is_Fetch (Timeout ms) = False"

definition fetch_count :: "event list \<Rightarrow> nat" where
  "fetch_count evs = length (filter is_Fetch evs)"

section \<open>Fixtures\<close>

text \<open>
  The responses the mocked transport of the test suite returns (apiService.test.ts and
  \<open>mockFetchError\<close> of test/utils.tsx), a success response whose body does not parse, one
  whose body read fails the way a dropped connection does, a 409 whose body is
  \<open>{"message": {"toString": null}}\<close>, two environments, and the adapter options \<open>{}\<close>.
\<close>

definition mock_503 :: response where
  "mock_503 = \<lparr>ok = False, status = 503, statusText = ''Service Unavailable'',
      content_type = Some ''application/json'',
      json = Inr (JObj [(''message'', JStr ''Service unavailable'')])\<rparr>"

definition mock_user :: response where
  "mock_user = \<lparr>ok = True, status = 200, statusText = ''OK'',
      content_type = Some ''application/json'',
      json = Inr (JObj [(''id'', JStr ''1''), (''username'', JStr ''test'')])\<rparr>"

definition mockFetchError :: "int \<Rightarrow> string \<Rightarrow> response" where
  "mockFetchError s msg = \<lparr>ok = False, status = s, statusText = ''Error'',
      content_type = Some ''application/json'',
      json = Inr (JObj [(''message'', JStr msg)])\<rparr>"

definition mock_unparsable :: response where
  "mock_unparsable = \<lparr>ok = True, status = 200, statusText = ''OK'',
      content_type = Some ''application/json'',
      json = Inl (Error ''Unexpected end of JSON input'')\<rparr>"

definition mock_body_lost :: response where
  "mock_body_lost = \<lparr>ok = True, status = 200, statusText = ''OK'',
      content_type = Some ''application/json'',
      json = Inl (TypeError ''Failed to fetch'')\<rparr>"

definition mock_conflict_unprintable :: response where
  "mock_conflict_unprintable = \<lparr>ok = False, status = 409, statusText = ''Conflict'',
      content_type = Some ''application/json'',
      json = Inr (JObj [(''message'', JObj [(''toString'', JNull)])])\<rparr>"

definition mock_empty_list :: response where
  "mock_empty_list = \<lparr>ok = True, status = 200, statusText = ''OK'',
      content_type = Some ''application/json'', json = Inr (JArr [])\<rparr>"

definition development :: env where
  "development = \<lparr>is_PROD = False, MODE = ''development''\<rparr>"

definition test_mode :: env where
  "test_mode = \<lparr>is_PROD = False, MODE = ''test''\<rparr>"

definition no_callbacks :: UseApiOptions where
  "no_callbacks = \<lparr>onSuccess = None, onError = None\<rparr>"


section \<open>The retry loop\<close>

text \<open>Evaluating \<open>request\<close> on a concrete script.\<close>

lemmas eval_request =
  request_def request_loop.simps attempt_step_def try_block_def catch_block_def
  status_switch_def throw_with_message_def ok_branch_def error_message_def API_BASE_URL_def
  delay_def

text \<open>How one attempt ends on the statuses the \<open>switch\<close> retries, and on a response that is \<open>ok\<close>.\<close>

lemma attempt_step_retry_status:
  assumes "\<not> ok r" and "status r \<in> {502, 503, 504, 429}" and "attempt < retries"
  shows "attempt_step endpoint (Resolved r) attempt retries = Continue (2 ^ attempt * 1000)"
  using assms by (auto simp: attempt_step_def try_block_def status_switch_def Let_def)

lemma attempt_step_last_status:
  assumes "\<not> ok r" and "status r \<in> {502, 503, 504, 429}" and "\<not> attempt < retries"
  shows "attempt_step endpoint (Resolved r) attempt retries =
           Throw (if status r = 429
                  then ApiError 429 ''Too Many Requests'' ''Rate limit exceeded'' endpoint
                  else ApiError (status r) (statusText r) ''Service temporarily unavailable'' endpoint)"
  using assms by (auto simp: attempt_step_def try_block_def status_switch_def Let_def catch_block_def)

lemma attempt_step_ok:
  assumes "ok r" and "ok_branch r = Return v"
  shows "attempt_step endpoint (Resolved r) attempt retries = Return v"
  using assms by (simp add: attempt_step_def try_block_def)

text \<open>One unfolding of the loop for each way an attempt can end.\<close>

lemma request_loop_Return:
  assumes "attempt \<le> retries"
    and "attempt_step endpoint (transport attempt) attempt retries = Return v"
  shows "request_loop e transport endpoint options retries attempt =
           (Inr v, [Fetch (API_BASE_URL e @ endpoint) (fetch_init options)])"
  using assms by (subst request_loop.simps) simp

lemma request_loop_Throw:
  assumes "attempt \<le> retries"
    and "attempt_step endpoint (transport attempt) attempt retries = Throw err"
  shows "request_loop e transport endpoint options retries attempt =
           (Inl err, [Fetch (API_BASE_URL e @ endpoint) (fetch_init options)])"
  using assms by (subst request_loop.simps) simp

lemma request_loop_Continue:
  assumes "attempt \<le> retries"
    and "attempt_step endpoint (transport attempt) attempt retries = Continue ms"
  shows "request_loop e transport endpoint options retries attempt =
           (fst (request_loop e transport endpoint options retries (Suc attempt)),
            Fetch (API_BASE_URL e @ endpoint) (fetch_init options) # Timeout (delay e ms)
              # snd (request_loop e transport endpoint options retries (Suc attempt)))"
  using assms by (subst request_loop.simps) (simp add: case_prod_unfold)

text \<open>A run of continued attempts contributes one \<open>fetch\<close> and one wait each.\<close>

lemma request_loop_prefix:
  assumes "a \<le> k" and "k \<le> retries"
    and "\<forall>i. a \<le> i \<and> i < k \<longrightarrow>
           attempt_step endpoint (transport i) i retries = Continue (2 ^ i * 1000)"
  shows "request_loop e transport endpoint options retries a =
           (fst (request_loop e transport endpoint options retries k),
            concat (map (\<lambda>i. [Fetch (API_BASE_URL e @ endpoint) (fetch_init options),
                              Timeout (delay e (2 ^ i * 1000))]) [a..<k])
              @ snd (request_loop e transport endpoint options retries k))"
  using assms
proof (induction k rule: dec_induct)
  case base
  show ?case by simp
next
  case (step n)
  have st: "attempt_step endpoint (transport n) n retries = Continue (2 ^ n * 1000)"
    using step.hyps step.prems by simp
  have le: "n \<le> retries" using step.prems by simp
  have unfold: "request_loop e transport endpoint options retries n =
           (fst (request_loop e transport endpoint options retries (Suc n)),
            Fetch (API_BASE_URL e @ endpoint) (fetch_init options) # Timeout (delay e (2 ^ n * 1000))
              # snd (request_loop e transport endpoint options retries (Suc n)))"
    using le st by (rule request_loop_Continue [where transport = transport and attempt = n])
  have ih: "request_loop e transport endpoint options retries a =
           (fst (request_loop e transport endpoint options retries n),
            concat (map (\<lambda>i. [Fetch (API_BASE_URL e @ endpoint) (fetch_init options),
                              Timeout (delay e (2 ^ i * 1000))]) [a..<n])
              @ snd (request_loop e transport endpoint options retries n))"
    using step.IH step.prems step.hyps by simp
  show ?case
    using step.hyps by (simp add: ih unfold)
qed

lemma delay_backoff:
  "delay e (2 ^ i * 1000) = (if MODE e = ''test'' then 2 ^ i * 100 else 2 ^ i * 1000)"
  by (simp add: delay_def)

text \<open>The only value a string conversion throws.\<close>

lemma collect_Inl: "collect rs = Inl e \<Longrightarrow> Inl e \<in> set rs"
  by (induction rs rule: collect.induct) (auto split: sum.splits)

lemma toString_throws:
  "toString v = Inl e \<Longrightarrow> e = TypeError ''Cannot convert object to primitive value''"
proof (induction v arbitrary: e rule: toString.induct)
  case (6 xs)
  from "6.prems" have
    "collect (map (\<lambda>x. if x = JNull \<or> x = JUndefined then Inr [] else toString x) xs) = Inl e"
    by (simp split: sum.splits)
  from collect_Inl [OF this] obtain x where "x \<in> set xs"
    and "\<not> (x = JNull \<or> x = JUndefined)" and "toString x = Inl e"
    by (auto split: if_splits)
  then show ?case by (rule "6.IH")
qed (auto split: if_splits)

lemma throw_with_message_cases:
  "(\<exists>m. toString v = Inr m \<and> throw_with_message v build = Throw (build m)) \<or>
   (toString v = Inl (TypeError ''Cannot convert object to primitive value'') \<and>
    throw_with_message v build = Throw (TypeError ''Cannot convert object to primitive value''))"
proof (cases "toString v")
  case (Inl e)
  with toString_throws [OF Inl] show ?thesis by (simp add: throw_with_message_def)
next
  case (Inr m)
  then show ?thesis by (simp add: throw_with_message_def)
qed

lemma throw_with_message_not_Continue: "throw_with_message v build \<noteq> Continue ms"
  by (simp add: throw_with_message_def split: sum.split)

lemma throw_with_message_not_Return: "throw_with_message v build \<noteq> Return w"
  by (simp add: throw_with_message_def split: sum.split)

lemma status_switch_Continue:
  assumes "status_switch endpoint r attempt retries = Continue ms"
  shows "attempt < retries \<and> ms = 2 ^ attempt * 1000 \<and> status r \<in> {429, 502, 503, 504}"
  using assms
  by (auto simp: status_switch_def Let_def throw_with_message_not_Continue split: if_splits)

lemma ok_branch_not_Continue: "ok_branch r \<noteq> Continue ms"
  by (auto simp: ok_branch_def split: option.splits sum.splits)

lemma catch_block_Continue:
  assumes "catch_block endpoint x attempt retries = Continue ms"
  shows "attempt < retries \<and> ms = 2 ^ attempt * 1000 \<and> is_fetch_TypeError x"
  using assms by (auto simp: catch_block_def split: if_splits)

text \<open>
  What the \<open>switch\<close> throws: an \<open>ApiError\<close>, a \<open>ValidationError\<close> (for status 400 only), or, in
  the three branches that build an error from the parsed message, the \<open>TypeError\<close> of a
  message that has no string form.
\<close>

lemma throw_with_message_Throw:
  assumes "throw_with_message v build = Throw x"
  shows "(\<exists>m. toString v = Inr m \<and> x = build m) \<or>
         (toString v = Inl x \<and> x = TypeError ''Cannot convert object to primitive value'')"
  using assms throw_with_message_cases [of v build] by auto

lemma status_switch_Throw:
  assumes "status_switch endpoint r attempt retries = Throw x"
  shows "((\<exists>s st m ep. x = ApiError s st m ep) \<or>
          ((\<exists>m. x = ValidationError m None) \<and> status r = 400) \<or>
          (x = TypeError ''Cannot convert object to primitive value'' \<and>
           toString (error_message r) = Inl x \<and>
           status r \<notin> {401, 403, 404, 429, 500, 502, 503, 504})) \<and>
         \<not> is_fetch_TypeError x"
proof -
  consider (fixed) "status r \<in> {401, 403, 404, 429, 500, 502, 503, 504}"
    | (bad_request) "status r = 400"
    | (other) "status r \<notin> {400, 401, 403, 404, 429, 500, 502, 503, 504}"
    by blast
  then show ?thesis
  proof cases
    case fixed
    with assms show ?thesis
      by (auto simp: status_switch_def Let_def split: if_splits)
  next
    case bad_request
    with assms have "throw_with_message (error_message r) (\<lambda>m. ValidationError m None) = Throw x"
      by (simp add: status_switch_def Let_def)
    from throw_with_message_Throw [OF this] bad_request show ?thesis by auto
  next
    case other
    with assms have
      "throw_with_message (error_message r) (\<lambda>m. ApiError (status r) (statusText r) m endpoint) =
         Throw x"
      by (simp add: status_switch_def Let_def split: if_splits)
    from throw_with_message_Throw [OF this] other show ?thesis by auto
  qed
qed

lemma is_custom_not_fetch: "is_custom x \<Longrightarrow> \<not> is_fetch_TypeError x"
  by (cases x) auto

lemma catch_block_custom:
  "is_custom x \<Longrightarrow> catch_block endpoint x attempt retries = Throw x"
  by (simp add: catch_block_def is_custom_not_fetch)

text \<open>An attempt continues only while attempts remain, and only for the retried outcomes.\<close>

lemma attempt_step_Continue:
  assumes "attempt_step endpoint outcome attempt retries = Continue ms"
  shows "attempt < retries \<and> ms = 2 ^ attempt * 1000 \<and>
         ((\<exists>r. outcome = Resolved r \<and> \<not> ok r \<and> status r \<in> {429, 502, 503, 504}) \<or>
          (\<exists>x. is_fetch_TypeError x \<and>
               (outcome = Rejected x \<or> (\<exists>r. outcome = Resolved r \<and> ok r \<and> ok_branch r = Throw x))))"
proof (cases outcome)
  case (Rejected x)
  with assms have "catch_block endpoint x attempt retries = Continue ms"
    by (simp add: attempt_step_def try_block_def)
  from catch_block_Continue [OF this] Rejected show ?thesis by blast
next
  case (Resolved r)
  show ?thesis
  proof (cases "ok r")
    case True
    with assms Resolved obtain x where x: "ok_branch r = Throw x"
      and c: "catch_block endpoint x attempt retries = Continue ms"
      by (cases "ok_branch r") (auto simp: attempt_step_def try_block_def ok_branch_not_Continue)
    from catch_block_Continue [OF c] x True Resolved show ?thesis by blast
  next
    case False
    show ?thesis
    proof (cases "status_switch endpoint r attempt retries")
      case (Return v)
      with assms Resolved False show ?thesis by (simp add: attempt_step_def try_block_def)
    next
      case (Throw x)
      with assms Resolved False have "catch_block endpoint x attempt retries = Continue ms"
        by (simp add: attempt_step_def try_block_def)
      from catch_block_Continue [OF this] status_switch_Throw [OF Throw] show ?thesis
        by simp
    next
      case (Continue ms')
      with assms Resolved False have "ms' = ms" by (simp add: attempt_step_def try_block_def)
      with status_switch_Continue [OF Continue] Resolved False show ?thesis by blast
    qed
  qed
qed

text \<open>
  Every call from an attempt within the ceiling settles at some attempt \<open>k\<close>: the attempts
  before \<open>k\<close> continued, attempt \<open>k\<close> returned or threw what the call settles to, and the
  transport was invoked once per attempt.
\<close>

lemma request_loop_settles:
  assumes "attempt \<le> retries"
    and "request_loop e transport endpoint options retries attempt = (res, evs)"
  shows "\<exists>k. attempt \<le> k \<and> k \<le> retries \<and>
           (\<forall>i. attempt \<le> i \<and> i < k \<longrightarrow>
                attempt_step endpoint (transport i) i retries = Continue (2 ^ i * 1000)) \<and>
           attempt_step endpoint (transport k) k retries =
             (case res of Inr v \<Rightarrow> Return v | Inl err \<Rightarrow> Throw err) \<and>
           fetch_count evs = Suc (k - attempt)"
  using assms
proof (induction e transport endpoint options retries attempt arbitrary: res evs
        rule: request_loop.induct)
  case (1 e transport endpoint options retries attempt)
  show ?case
  proof (cases "attempt_step endpoint (transport attempt) attempt retries")
    case (Return v)
    with "1.prems" have "res = Inr v" "evs = [Fetch (API_BASE_URL e @ endpoint) (fetch_init options)]"
      by (simp_all add: request_loop_Return)
    with Return "1.prems"(1) show ?thesis
      by (intro exI [of _ attempt]) (auto simp: fetch_count_def)
  next
    case (Throw err)
    with "1.prems" have "res = Inl err" "evs = [Fetch (API_BASE_URL e @ endpoint) (fetch_init options)]"
      by (simp_all add: request_loop_Throw)
    with Throw "1.prems"(1) show ?thesis
      by (intro exI [of _ attempt]) (auto simp: fetch_count_def)
  next
    case (Continue ms)
    from attempt_step_Continue [OF Continue] have lt: "attempt < retries"
      and ms: "ms = 2 ^ attempt * 1000" by simp_all
    obtain res' evs' where next_call:
      "request_loop e transport endpoint options retries (Suc attempt) = (res', evs')"
      by (cases "request_loop e transport endpoint options retries (Suc attempt)")
    with "1.prems" Continue have res: "res = res'"
      and evs: "evs = Fetch (API_BASE_URL e @ endpoint) (fetch_init options) # Timeout (delay e ms) # evs'"
      by (simp_all add: request_loop_Continue)
    from lt have "Suc attempt \<le> retries" by simp
    from "1.IH" [OF "1.prems"(1) Continue this next_call]
    obtain k where k: "Suc attempt \<le> k" "k \<le> retries"
      "\<forall>i. Suc attempt \<le> i \<and> i < k \<longrightarrow>
                attempt_step endpoint (transport i) i retries = Continue (2 ^ i * 1000)"
      "attempt_step endpoint (transport k) k retries =
             (case res' of Inr v \<Rightarrow> Return v | Inl err \<Rightarrow> Throw err)"
      "fetch_count evs' = Suc (k - Suc attempt)"
      by blast
    have "\<forall>i. attempt \<le> i \<and> i < k \<longrightarrow>
                attempt_step endpoint (transport i) i retries = Continue (2 ^ i * 1000)"
    proof (intro allI impI)
      fix i assume "attempt \<le> i \<and> i < k"
      then consider "i = attempt" | "Suc attempt \<le> i \<and> i < k" by force
      then show "attempt_step endpoint (transport i) i retries = Continue (2 ^ i * 1000)"
        using Continue ms k(3) by cases simp_all
    qed
    moreover have "fetch_count evs = Suc (k - attempt)"
      using k(1) k(5) evs by (simp add: fetch_count_def)
    ultimately show ?thesis
      using k res by (intro exI [of _ k]) simp
  qed
qed

lemma request_loop_terminal:
  assumes "attempt \<le> retries"
    and "\<forall>ms. attempt_step endpoint (transport attempt) attempt retries \<noteq> Continue ms"
  shows "snd (request_loop e transport endpoint options retries attempt) =
           [Fetch (API_BASE_URL e @ endpoint) (fetch_init options)]"
proof (cases "attempt_step endpoint (transport attempt) attempt retries")
  case (Return v)
  with assms(1) show ?thesis by (simp add: request_loop_Return)
next
  case (Throw err)
  with assms(1) show ?thesis by (simp add: request_loop_Throw)
next
  case (Continue ms)
  with assms(2) show ?thesis by simp
qed

lemma ok_branch_Throw: "ok_branch r = Throw x \<Longrightarrow> json r = Inl x"
  by (auto simp: ok_branch_def split: option.splits sum.splits if_splits)

lemma catch_block_Throw_kinds:
  assumes "catch_block endpoint x attempt retries = Throw err"
  shows "(is_custom x \<and> err = x) \<or>
         (is_fetch_TypeError x \<and> (\<exists>m. err = NetworkError m endpoint)) \<or>
         (\<not> is_fetch_TypeError x \<and> \<not> is_custom x \<and> (\<exists>m. err = Error (''Unexpected error: '' @ m)))"
  using assms by (auto simp: catch_block_def is_custom_not_fetch split: if_splits)

lemma is_custom_cases:
  "is_custom x \<longleftrightarrow> (\<exists>s st m ep. x = ApiError s st m ep) \<or> (\<exists>m ep. x = NetworkError m ep) \<or>
       (\<exists>m f. x = ValidationError m f)"
  by (cases x) auto

text \<open>What an attempt can throw, and where a \<open>ValidationError\<close> and a plain \<open>Error\<close> come from.\<close>

lemma attempt_step_Throw:
  assumes "attempt_step endpoint outcome attempt retries = Throw err"
  shows "((\<exists>s st m ep. err = ApiError s st m ep) \<or> (\<exists>m ep. err = NetworkError m ep) \<or>
          (\<exists>m f. err = ValidationError m f) \<or> (\<exists>m. err = Error (''Unexpected error: '' @ m))) \<and>
         (\<forall>m f. err = ValidationError m f \<longrightarrow>
            (\<exists>r. outcome = Resolved r \<and> \<not> ok r \<and> status r = 400) \<or>
            outcome = Rejected err \<or>
            (\<exists>r. outcome = Resolved r \<and> ok r \<and> json r = Inl err)) \<and>
         (\<forall>m. err = Error m \<longrightarrow>
            (\<exists>x. \<not> is_fetch_TypeError x \<and> \<not> is_custom x \<and>
                 (outcome = Rejected x \<or>
                  (\<exists>r. outcome = Resolved r \<and> ok r \<and> json r = Inl x) \<or>
                  (\<exists>r. outcome = Resolved r \<and> \<not> ok r \<and>
                       status r \<notin> {401, 403, 404, 429, 500, 502, 503, 504} \<and>
                       toString (error_message r) = Inl x))))"
proof (cases outcome)
  case (Rejected x)
  with assms have "catch_block endpoint x attempt retries = Throw err"
    by (simp add: attempt_step_def try_block_def)
  from catch_block_Throw_kinds [OF this] Rejected show ?thesis
    by (auto simp: is_custom_cases)
next
  case (Resolved r)
  show ?thesis
  proof (cases "ok r")
    case True
    with assms Resolved obtain x where x: "ok_branch r = Throw x"
      and c: "catch_block endpoint x attempt retries = Throw err"
      by (cases "ok_branch r") (auto simp: attempt_step_def try_block_def)
    from catch_block_Throw_kinds [OF c] ok_branch_Throw [OF x] True Resolved show ?thesis
      by (auto simp: is_custom_cases)
  next
    case False
    with assms Resolved obtain x where x: "status_switch endpoint r attempt retries = Throw x"
      and c: "catch_block endpoint x attempt retries = Throw err"
      by (cases "status_switch endpoint r attempt retries") (auto simp: attempt_step_def try_block_def)
    from status_switch_Throw [OF x] consider
        (api) "\<exists>s st m ep. x = ApiError s st m ep"
      | (validation) "\<exists>m. x = ValidationError m None" "status r = 400"
      | (conversion) "x = TypeError ''Cannot convert object to primitive value''"
          "toString (error_message r) = Inl x"
          "status r \<notin> {401, 403, 404, 429, 500, 502, 503, 504}"
      by blast
    then show ?thesis
    proof cases
      case api
      then have "err = x" using c by (auto simp: catch_block_def)
      with api show ?thesis by auto
    next
      case validation
      then have "err = x" using c by (auto simp: catch_block_def)
      with validation False Resolved show ?thesis by auto
    next
      case conversion
      then have err: "err = Error ''Unexpected error: Cannot convert object to primitive value''"
        using c by (simp add: catch_block_def)
      have "\<not> is_fetch_TypeError x \<and> \<not> is_custom x" using conversion(1) by simp
      with err conversion False Resolved show ?thesis by auto
    qed
  qed
qed

section \<open>Claims about the Request Engine\<close>

text \<open>
  C1 (amended). Let the first \<open>k\<close> attempts (\<open>k \<le> retries\<close>) each be answered by a response
  that is not \<open>ok\<close> with a status in {502, 503, 504, 429}. If attempt \<open>k\<close> (counted from 0) is
  answered by an \<open>ok\<close> response whose body handling yields \<open>v\<close>, \<open>request\<close> resolves to \<open>v\<close> after
  exactly \<open>k + 1\<close> transport invocations; if \<open>k = retries\<close> and attempt \<open>k\<close> is again answered
  by such a status, \<open>request\<close> rejects with an \<open>ApiError\<close> carrying the last status and the
  message "Rate limit exceeded" (429) or "Service temporarily unavailable" (502, 503, 504),
  after \<open>retries + 1\<close> invocations. In both cases the wait placed after attempt \<open>i\<close> is
  \<open>2 ^ i\<close> seconds, and one tenth of that when \<open>MODE\<close> is \<open>test\<close>.
\<close>

theorem request_bounded_retry:
  assumes retried: "\<forall>i<k. \<exists>r'. transport i = Resolved r' \<and> \<not> ok r' \<and> status r' \<in> {502, 503, 504, 429}"
    and k: "k \<le> retries"
    and last: "transport k = Resolved r"
  shows "(ok r \<and> ok_branch r = Return v \<longrightarrow>
            request e transport endpoint options retries =
              (Inr v,
               concat (map (\<lambda>i. [Fetch (API_BASE_URL e @ endpoint) (fetch_init options),
                                 Timeout (if MODE e = ''test'' then 2 ^ i * 100 else 2 ^ i * 1000)])
                         [0..<k])
                 @ [Fetch (API_BASE_URL e @ endpoint) (fetch_init options)])) \<and>
         (\<not> ok r \<and> status r \<in> {502, 503, 504, 429} \<and> k = retries \<longrightarrow>
            request e transport endpoint options retries =
              (Inl (if status r = 429
                    then ApiError 429 ''Too Many Requests'' ''Rate limit exceeded'' endpoint
                    else ApiError (status r) (statusText r) ''Service temporarily unavailable''
                           endpoint),
               concat (map (\<lambda>i. [Fetch (API_BASE_URL e @ endpoint) (fetch_init options),
                                 Timeout (if MODE e = ''test'' then 2 ^ i * 100 else 2 ^ i * 1000)])
                         [0..<k])
                 @ [Fetch (API_BASE_URL e @ endpoint) (fetch_init options)]))"
proof -
  have steps: "\<forall>i. 0 \<le> i \<and> i < k \<longrightarrow>
                 attempt_step endpoint (transport i) i retries = Continue (2 ^ i * 1000)"
  proof (intro allI impI)
    fix i assume "0 \<le> i \<and> i < k"
    then have "i < k" by simp
    with retried obtain r' where "transport i = Resolved r'" "\<not> ok r'"
      "status r' \<in> {502, 503, 504, 429}" by blast
    moreover have "i < retries" using \<open>i < k\<close> k by simp
    ultimately show "attempt_step endpoint (transport i) i retries = Continue (2 ^ i * 1000)"
      by (simp add: attempt_step_retry_status)
  qed
  have pre: "request e transport endpoint options retries =
           (fst (request_loop e transport endpoint options retries k),
            concat (map (\<lambda>i. [Fetch (API_BASE_URL e @ endpoint) (fetch_init options),
                              Timeout (delay e (2 ^ i * 1000))]) [0..<k])
              @ snd (request_loop e transport endpoint options retries k))"
    unfolding request_def using k steps by (intro request_loop_prefix) simp_all
  show ?thesis
  proof (intro conjI impI)
    assume "ok r \<and> ok_branch r = Return v"
    then have "attempt_step endpoint (transport k) k retries = Return v"
      using last by (simp add: attempt_step_ok)
    with k have "request_loop e transport endpoint options retries k =
                  (Inr v, [Fetch (API_BASE_URL e @ endpoint) (fetch_init options)])"
      by (rule request_loop_Return)
    then show "request e transport endpoint options retries =
              (Inr v,
               concat (map (\<lambda>i. [Fetch (API_BASE_URL e @ endpoint) (fetch_init options),
                                 Timeout (if MODE e = ''test'' then 2 ^ i * 100 else 2 ^ i * 1000)])
                         [0..<k])
                 @ [Fetch (API_BASE_URL e @ endpoint) (fetch_init options)])"
      by (simp add: pre delay_backoff)
  next
    assume a: "\<not> ok r \<and> status r \<in> {502, 503, 504, 429} \<and> k = retries"
    then have "attempt_step endpoint (transport k) k retries =
                 Throw (if status r = 429
                    then ApiError 429 ''Too Many Requests'' ''Rate limit exceeded'' endpoint
                    else ApiError (status r) (statusText r) ''Service temporarily unavailable''
                           endpoint)"
      using last by (simp add: attempt_step_last_status)
    with k have "request_loop e transport endpoint options retries k =
                  (Inl (if status r = 429
                    then ApiError 429 ''Too Many Requests'' ''Rate limit exceeded'' endpoint
                    else ApiError (status r) (statusText r) ''Service temporarily unavailable''
                           endpoint), [Fetch (API_BASE_URL e @ endpoint) (fetch_init options)])"
      by (rule request_loop_Throw)
    then show "request e transport endpoint options retries =
              (Inl (if status r = 429
                    then ApiError 429 ''Too Many Requests'' ''Rate limit exceeded'' endpoint
                    else ApiError (status r) (statusText r) ''Service temporarily unavailable''
                           endpoint),
               concat (map (\<lambda>i. [Fetch (API_BASE_URL e @ endpoint) (fetch_init options),
                                 Timeout (if MODE e = ''test'' then 2 ^ i * 100 else 2 ^ i * 1000)])
                         [0..<k])
                 @ [Fetch (API_BASE_URL e @ endpoint) (fetch_init options)])"
      by (simp add: pre delay_backoff)
  qed
qed

text \<open>
  The theorem at the two scenarios of the test suite, outside test mode: 503 twice and then
  the user, and 503 throughout.
\<close>

theorem request_bounded_retry_witness:
  "request development (\<lambda>i. if i < 2 then Resolved mock_503 else Resolved mock_user)
     ''/users/1'' no_options 3 =
     (Inr (JObj [(''id'', JStr ''1''), (''username'', JStr ''test'')]),
      [Fetch ''http://localhost:7071/api/users/1'' (fetch_init no_options), Timeout 1000,
       Fetch ''http://localhost:7071/api/users/1'' (fetch_init no_options), Timeout 2000,
       Fetch ''http://localhost:7071/api/users/1'' (fetch_init no_options)]) \<and>
   request development (\<lambda>i. Resolved mock_503) ''/users/1'' no_options 3 =
     (Inl (ApiError 503 ''Service Unavailable'' ''Service temporarily unavailable'' ''/users/1''),
      [Fetch ''http://localhost:7071/api/users/1'' (fetch_init no_options), Timeout 1000,
       Fetch ''http://localhost:7071/api/users/1'' (fetch_init no_options), Timeout 2000,
       Fetch ''http://localhost:7071/api/users/1'' (fetch_init no_options), Timeout 4000,
       Fetch ''http://localhost:7071/api/users/1'' (fetch_init no_options)])"
proof -
  have upt2: "[0..<2] = [0, Suc 0]" and upt3: "[0..<3] = [0, Suc 0, 2]"
    by (simp_all add: upt_rec)
  have a: "\<forall>i<2. \<exists>r'. (if i < 2 then Resolved mock_503 else Resolved mock_user) = Resolved r'
             \<and> \<not> ok r' \<and> status r' \<in> {502, 503, 504, 429}"
    by (simp add: mock_503_def)
  have b: "\<forall>i<3. \<exists>r'. Resolved mock_503 = Resolved r'
             \<and> \<not> ok r' \<and> status r' \<in> {502, 503, 504, 429}"
    by (simp add: mock_503_def)
  have okb: "ok_branch mock_user = Return (JObj [(''id'', JStr ''1''), (''username'', JStr ''test'')])"
    by (simp add: ok_branch_def mock_user_def)
  have "request development (\<lambda>i. if i < 2 then Resolved mock_503 else Resolved mock_user)
     ''/users/1'' no_options 3 =
     (Inr (JObj [(''id'', JStr ''1''), (''username'', JStr ''test'')]),
      [Fetch ''http://localhost:7071/api/users/1'' (fetch_init no_options), Timeout 1000,
       Fetch ''http://localhost:7071/api/users/1'' (fetch_init no_options), Timeout 2000,
       Fetch ''http://localhost:7071/api/users/1'' (fetch_init no_options)])"
    using request_bounded_retry [where k = 2 and retries = 3 and r = mock_user
        and transport = "\<lambda>i. if i < 2 then Resolved mock_503 else Resolved mock_user"
        and e = development and endpoint = "''/users/1''" and options = no_options
        and v = "JObj [(''id'', JStr ''1''), (''username'', JStr ''test'')]", OF a]
      okb
    by (simp add: upt2 development_def API_BASE_URL_def mock_user_def)
  moreover have "request development (\<lambda>i. Resolved mock_503) ''/users/1'' no_options 3 =
     (Inl (ApiError 503 ''Service Unavailable'' ''Service temporarily unavailable'' ''/users/1''),
      [Fetch ''http://localhost:7071/api/users/1'' (fetch_init no_options), Timeout 1000,
       Fetch ''http://localhost:7071/api/users/1'' (fetch_init no_options), Timeout 2000,
       Fetch ''http://localhost:7071/api/users/1'' (fetch_init no_options), Timeout 4000,
       Fetch ''http://localhost:7071/api/users/1'' (fetch_init no_options)])"
    using request_bounded_retry [where k = 3 and retries = 3 and r = mock_503
        and transport = "\<lambda>i. Resolved mock_503"
        and e = development and endpoint = "''/users/1''" and options = no_options, OF b]
    by (simp add: upt3 development_def API_BASE_URL_def mock_503_def)
  ultimately show ?thesis by simp
qed

text \<open>
  In test mode one 503 followed by a success waits 100 milliseconds between the two
  attempts, where C1 without the amendment has \<open>2 ^ 0\<close> seconds.
\<close>

theorem request_test_mode_wait:
  "request test_mode (\<lambda>i. if i < 1 then Resolved mock_503 else Resolved mock_user)
     ''/users/1'' no_options 3 =
     (Inr (JObj [(''id'', JStr ''1''), (''username'', JStr ''test'')]),
      [Fetch ''http://localhost:7071/api/users/1'' (fetch_init no_options), Timeout 100,
       Fetch ''http://localhost:7071/api/users/1'' (fetch_init no_options)]) \<and>
   Timeout 100 \<noteq> Timeout (2 ^ 0 * 1000)"
  by (simp add: request_def request_loop.simps attempt_step_def try_block_def status_switch_def
      ok_branch_def mock_503_def mock_user_def test_mode_def API_BASE_URL_def delay_def)

text \<open>
  C4 (amended). Every failure \<open>request\<close> throws is an \<open>ApiError\<close>, a \<open>NetworkError\<close>, a
  \<open>ValidationError\<close>, or a plain \<open>Error\<close> whose message starts with "Unexpected error: ". A
  \<open>ValidationError\<close> is thrown only for a response with status 400, or when the transport
  (\<open>fetch\<close>, or \<open>json()\<close> of a response that is \<open>ok\<close>) itself rejected with that very
  \<open>ValidationError\<close>, which is rethrown. The plain \<open>Error\<close> is thrown only when something other
  than a \<open>TypeError\<close> mentioning "fetch" and other than the three classes was thrown inside
  the attempt: by \<open>fetch\<close>, by \<open>json()\<close> of a response that is \<open>ok\<close>, or by the string
  conversion of the parsed message of a failed response whose status is none of 401, 403,
  404, 429, 500, 502, 503, 504 (the branches that build the error from that message).
\<close>

theorem request_failure_kinds:
  assumes "request e transport endpoint options retries = (Inl err, evs)"
  shows "((\<exists>s st m ep. err = ApiError s st m ep) \<or> (\<exists>m ep. err = NetworkError m ep) \<or>
          (\<exists>m f. err = ValidationError m f) \<or> (\<exists>m. err = Error (''Unexpected error: '' @ m))) \<and>
         (\<forall>m f. err = ValidationError m f \<longrightarrow>
            (\<exists>i\<le>retries.
               (\<exists>r. transport i = Resolved r \<and> \<not> ok r \<and> status r = 400) \<or>
               transport i = Rejected err \<or>
               (\<exists>r. transport i = Resolved r \<and> ok r \<and> json r = Inl err))) \<and>
         (\<forall>m. err = Error m \<longrightarrow>
            (\<exists>i\<le>retries. \<exists>x. \<not> is_fetch_TypeError x \<and> \<not> is_custom x \<and>
               (transport i = Rejected x \<or>
                (\<exists>r. transport i = Resolved r \<and> ok r \<and> json r = Inl x) \<or>
                (\<exists>r. transport i = Resolved r \<and> \<not> ok r \<and>
                     status r \<notin> {401, 403, 404, 429, 500, 502, 503, 504} \<and>
                     toString (error_message r) = Inl x))))"
proof -
  from assms have "request_loop e transport endpoint options retries 0 = (Inl err, evs)"
    by (simp add: request_def)
  from request_loop_settles [OF _ this] obtain k where k: "k \<le> retries"
    and thrown: "attempt_step endpoint (transport k) k retries = Throw err"
    by auto
  note facts = attempt_step_Throw [OF thrown]
  have kinds: "(\<exists>s st m ep. err = ApiError s st m ep) \<or> (\<exists>m ep. err = NetworkError m ep) \<or>
          (\<exists>m f. err = ValidationError m f) \<or> (\<exists>m. err = Error (''Unexpected error: '' @ m))"
    using facts by (rule conjunct1)
  have validation: "\<forall>m f. err = ValidationError m f \<longrightarrow>
            (\<exists>i\<le>retries.
               (\<exists>r. transport i = Resolved r \<and> \<not> ok r \<and> status r = 400) \<or>
               transport i = Rejected err \<or>
               (\<exists>r. transport i = Resolved r \<and> ok r \<and> json r = Inl err))"
    using facts [THEN conjunct2, THEN conjunct1] k by blast
  have plain: "\<forall>m. err = Error m \<longrightarrow>
            (\<exists>i\<le>retries. \<exists>x. \<not> is_fetch_TypeError x \<and> \<not> is_custom x \<and>
               (transport i = Rejected x \<or>
                (\<exists>r. transport i = Resolved r \<and> ok r \<and> json r = Inl x) \<or>
                (\<exists>r. transport i = Resolved r \<and> \<not> ok r \<and>
                     status r \<notin> {401, 403, 404, 429, 500, 502, 503, 504} \<and>
                     toString (error_message r) = Inl x)))"
    using facts [THEN conjunct2, THEN conjunct2] k by blast
  from kinds validation plain show ?thesis by (intro conjI)
qed

text \<open>
  The theorem at a 400 response, where the \<open>ValidationError\<close> carries the parsed message, and
  at a 409 whose parsed message has no string form, where the plain \<open>Error\<close> is thrown.
\<close>

theorem request_failure_kinds_witness:
  "request development (\<lambda>i. Resolved (mockFetchError 400 ''Invalid input'')) ''/users'' no_options 3 =
     (Inl (ValidationError ''Invalid input'' None),
      [Fetch ''http://localhost:7071/api/users'' (fetch_init no_options)]) \<and>
   (\<exists>i\<le>(3::nat). \<exists>r. Resolved (mockFetchError 400 ''Invalid input'') = Resolved r \<and> \<not> ok r \<and> status r = 400) \<and>
   request development (\<lambda>i. Resolved mock_conflict_unprintable) ''/users'' no_options 3 =
     (Inl (Error ''Unexpected error: Cannot convert object to primitive value''),
      [Fetch ''http://localhost:7071/api/users'' (fetch_init no_options)]) \<and>
   (\<exists>x. toString (error_message mock_conflict_unprintable) = Inl x \<and> \<not> is_custom x)"
proof -
  have run: "request development (\<lambda>i. Resolved (mockFetchError 400 ''Invalid input'')) ''/users'' no_options 3 =
     (Inl (ValidationError ''Invalid input'' None),
      [Fetch ''http://localhost:7071/api/users'' (fetch_init no_options)])"
    by (simp add: eval_request mockFetchError_def development_def)
  from request_failure_kinds [OF run] have
    "\<exists>i\<le>(3::nat). (\<exists>r. Resolved (mockFetchError 400 ''Invalid input'') = Resolved r \<and> \<not> ok r \<and> status r = 400) \<or>
        (\<exists>r. Resolved (mockFetchError 400 ''Invalid input'') = Resolved r \<and> ok r \<and>
             json r = Inl (ValidationError ''Invalid input'' None))"
    by simp
  then have a: "\<exists>i\<le>(3::nat). \<exists>r. Resolved (mockFetchError 400 ''Invalid input'') = Resolved r \<and> \<not> ok r \<and> status r = 400"
    by (auto simp: mockFetchError_def)
  have run2: "request development (\<lambda>i. Resolved mock_conflict_unprintable) ''/users'' no_options 3 =
     (Inl (Error ''Unexpected error: Cannot convert object to primitive value''),
      [Fetch ''http://localhost:7071/api/users'' (fetch_init no_options)])"
    by (simp add: eval_request mock_conflict_unprintable_def development_def)
  have not_ok: "\<not> ok mock_conflict_unprintable"
    by (simp add: mock_conflict_unprintable_def)
  from request_failure_kinds [OF run2] have
    "\<exists>i\<le>(3::nat). \<exists>x. \<not> is_fetch_TypeError x \<and> \<not> is_custom x \<and>
        ((\<exists>r. Resolved mock_conflict_unprintable = Resolved r \<and> ok r \<and> json r = Inl x) \<or>
         (\<exists>r. Resolved mock_conflict_unprintable = Resolved r \<and> \<not> ok r \<and>
              status r \<notin> {401, 403, 404, 429, 500, 502, 503, 504} \<and>
              toString (error_message r) = Inl x))"
    by simp
  with not_ok have b: "\<exists>x. toString (error_message mock_conflict_unprintable) = Inl x \<and> \<not> is_custom x"
    by auto
  from run a run2 b show ?thesis by (intro conjI)
qed

text \<open>
  A success response that declares JSON and whose body does not parse makes \<open>request\<close> throw a
  plain \<open>Error\<close>, which is none of the three classes.
\<close>

theorem request_unexpected_error:
  "request development (\<lambda>i. Resolved mock_unparsable) ''/users/1'' no_options 3 =
     (Inl (Error ''Unexpected error: Unexpected end of JSON input''),
      [Fetch ''http://localhost:7071/api/users/1'' (fetch_init no_options)]) \<and>
   \<not> is_custom (Error ''Unexpected error: Unexpected end of JSON input'')"
  by (simp add: eval_request mock_unparsable_def development_def)

text \<open>
  C7. With caller headers that do not name \<open>Content-Type\<close>, the \<open>fetch\<close> call that \<open>request\<close>
  issues carries the caller's headers alone: the outer \<open>...options\<close> puts \<open>options.headers\<close>
  over the merged object, and \<open>Content-Type: application/json\<close> is gone.
\<close>

theorem request_caller_headers_replace_default:
  "snd (request development (\<lambda>i. Resolved mock_user) ''/users/1''
          \<lparr>http_method = None, headers = Some [(''Authorization'', ''Bearer token'')], body = None\<rparr> 3) =
     [Fetch ''http://localhost:7071/api/users/1''
        \<lparr>http_method = None, headers = Some [(''Authorization'', ''Bearer token'')], body = None\<rparr>] \<and>
   map_of [(''Authorization'', ''Bearer token'')] ''Content-Type'' = None"
  by (simp add: eval_request mock_user_def development_def fetch_init_def spread_options_def
      spread_def)

text \<open>
  C10 (amended). If the first attempt is answered by a rejection that is not a \<open>TypeError\<close>
  mentioning "fetch", by an \<open>ok\<close> response whose body handling does not throw such a
  \<open>TypeError\<close>, or by a response that is not \<open>ok\<close> with a status outside {429, 502, 503, 504},
  then \<open>request\<close> settles after exactly one transport invocation and no wait. Conversely,
  attempt \<open>i\<close> (counted from 0) is followed by another invocation only when attempts remain
  and attempt \<open>i\<close> was answered by a response that is not \<open>ok\<close> with status 429, 502, 503 or
  504, or failed with a \<open>TypeError\<close> mentioning "fetch", thrown by \<open>fetch\<close> or by reading the
  body of an \<open>ok\<close> response.
\<close>

theorem request_single_attempt:
  "((case transport 0 of
       Rejected x \<Rightarrow> \<not> is_fetch_TypeError x
     | Resolved r \<Rightarrow>
         if ok r then \<forall>x. ok_branch r = Throw x \<longrightarrow> \<not> is_fetch_TypeError x
         else status r \<notin> {429, 502, 503, 504}) \<longrightarrow>
      snd (request e transport endpoint options retries) =
        [Fetch (API_BASE_URL e @ endpoint) (fetch_init options)]) \<and>
   (Suc i < fetch_count (snd (request e transport endpoint options retries)) \<longrightarrow>
      i < retries \<and>
      ((\<exists>r. transport i = Resolved r \<and> \<not> ok r \<and> status r \<in> {429, 502, 503, 504}) \<or>
       (\<exists>x. is_fetch_TypeError x \<and>
            (transport i = Rejected x \<or>
             (\<exists>r. transport i = Resolved r \<and> ok r \<and> ok_branch r = Throw x)))))"
proof (rule conjI)
  show "(case transport 0 of
       Rejected x \<Rightarrow> \<not> is_fetch_TypeError x
     | Resolved r \<Rightarrow>
         if ok r then \<forall>x. ok_branch r = Throw x \<longrightarrow> \<not> is_fetch_TypeError x
         else status r \<notin> {429, 502, 503, 504}) \<longrightarrow>
      snd (request e transport endpoint options retries) =
        [Fetch (API_BASE_URL e @ endpoint) (fetch_init options)]"
  proof (rule impI)
    assume terminal: "case transport 0 of
         Rejected x \<Rightarrow> \<not> is_fetch_TypeError x
       | Resolved r \<Rightarrow>
           if ok r then \<forall>x. ok_branch r = Throw x \<longrightarrow> \<not> is_fetch_TypeError x
           else status r \<notin> {429, 502, 503, 504}"
    have "\<forall>ms. attempt_step endpoint (transport 0) 0 retries \<noteq> Continue ms"
    proof (intro allI notI)
      fix ms assume "attempt_step endpoint (transport 0) 0 retries = Continue ms"
      from attempt_step_Continue [OF this] terminal show False
        by (auto split: fetch_outcome.splits if_splits)
    qed
    then show "snd (request e transport endpoint options retries) =
          [Fetch (API_BASE_URL e @ endpoint) (fetch_init options)]"
      by (simp add: request_def request_loop_terminal)
  qed
next
  show "Suc i < fetch_count (snd (request e transport endpoint options retries)) \<longrightarrow>
      i < retries \<and>
      ((\<exists>r. transport i = Resolved r \<and> \<not> ok r \<and> status r \<in> {429, 502, 503, 504}) \<or>
       (\<exists>x. is_fetch_TypeError x \<and>
            (transport i = Rejected x \<or>
             (\<exists>r. transport i = Resolved r \<and> ok r \<and> ok_branch r = Throw x))))"
  proof (rule impI)
    assume more: "Suc i < fetch_count (snd (request e transport endpoint options retries))"
    obtain res evs where settled:
      "request_loop e transport endpoint options retries 0 = (res, evs)"
      by (cases "request_loop e transport endpoint options retries 0")
    from request_loop_settles [OF _ settled] obtain k where
      continued: "\<forall>i. 0 \<le> i \<and> i < k \<longrightarrow>
                    attempt_step endpoint (transport i) i retries = Continue (2 ^ i * 1000)"
      and count: "fetch_count evs = Suc (k - 0)"
      by auto
    from more settled count have "i < k" by (simp add: request_def)
    with continued have
      "attempt_step endpoint (transport i) i retries = Continue (2 ^ i * 1000)" by simp
    from attempt_step_Continue [OF this]
    show "i < retries \<and>
        ((\<exists>r. transport i = Resolved r \<and> \<not> ok r \<and> status r \<in> {429, 502, 503, 504}) \<or>
         (\<exists>x. is_fetch_TypeError x \<and>
              (transport i = Rejected x \<or>
               (\<exists>r. transport i = Resolved r \<and> ok r \<and> ok_branch r = Throw x))))"
      by blast
  qed
qed

text \<open>
  The theorem at a 404, a 500, a success and an aborted call (one invocation each), and at
  503, 503, success (three invocations, the second answer a 503).
\<close>

theorem request_single_attempt_witness:
  "snd (request development (\<lambda>i. Resolved (mockFetchError 404 ''No series found'')) ''/series/user/user-1'' no_options 3) =
     [Fetch ''http://localhost:7071/api/series/user/user-1'' (fetch_init no_options)] \<and>
   snd (request development (\<lambda>i. Resolved (mockFetchError 500 ''Boom'')) ''/series/user/user-1'' no_options 3) =
     [Fetch ''http://localhost:7071/api/series/user/user-1'' (fetch_init no_options)] \<and>
   snd (request development (\<lambda>i. Resolved mock_user) ''/users/1'' no_options 3) =
     [Fetch ''http://localhost:7071/api/users/1'' (fetch_init no_options)] \<and>
   snd (request development (\<lambda>i. Rejected (Error ''The operation was aborted.'')) ''/users/1'' no_options 3) =
     [Fetch ''http://localhost:7071/api/users/1'' (fetch_init no_options)] \<and>
   Suc 1 < fetch_count (snd (request development
         (\<lambda>i. if i < 2 then Resolved mock_503 else Resolved mock_user) ''/users/1'' no_options 3)) \<and>
   (1::nat) < 3 \<and> \<not> ok mock_503 \<and> status mock_503 \<in> {429, 502, 503, 504}"
proof -
  have a: "snd (request development (\<lambda>i. Resolved (mockFetchError 404 ''No series found'')) ''/series/user/user-1'' no_options 3) =
     [Fetch ''http://localhost:7071/api/series/user/user-1'' (fetch_init no_options)]"
    using request_single_attempt [where transport = "\<lambda>i. Resolved (mockFetchError 404 ''No series found'')"
        and e = development and endpoint = "''/series/user/user-1''" and options = no_options and retries = 3]
    by (simp add: mockFetchError_def development_def API_BASE_URL_def)
  have b: "snd (request development (\<lambda>i. Resolved (mockFetchError 500 ''Boom'')) ''/series/user/user-1'' no_options 3) =
     [Fetch ''http://localhost:7071/api/series/user/user-1'' (fetch_init no_options)]"
    using request_single_attempt [where transport = "\<lambda>i. Resolved (mockFetchError 500 ''Boom'')"
        and e = development and endpoint = "''/series/user/user-1''" and options = no_options and retries = 3]
    by (simp add: mockFetchError_def development_def API_BASE_URL_def)
  have c: "snd (request development (\<lambda>i. Resolved mock_user) ''/users/1'' no_options 3) =
     [Fetch ''http://localhost:7071/api/users/1'' (fetch_init no_options)]"
    using request_single_attempt [where transport = "\<lambda>i. Resolved mock_user"
        and e = development and endpoint = "''/users/1''" and options = no_options and retries = 3]
    by (simp add: mock_user_def ok_branch_def development_def API_BASE_URL_def)
  have d: "snd (request development (\<lambda>i. Rejected (Error ''The operation was aborted.'')) ''/users/1'' no_options 3) =
     [Fetch ''http://localhost:7071/api/users/1'' (fetch_init no_options)]"
    using request_single_attempt [where transport = "\<lambda>i. Rejected (Error ''The operation was aborted.'')"
        and e = development and endpoint = "''/users/1''" and options = no_options and retries = 3]
    by (simp add: development_def API_BASE_URL_def)
  have run: "Suc 1 < fetch_count (snd (request development
         (\<lambda>i. if i < 2 then Resolved mock_503 else Resolved mock_user) ''/users/1'' no_options 3))"
    by (simp add: eval_request fetch_count_def mock_503_def mock_user_def development_def)
  have "(1::nat) < 3 \<and> \<not> ok mock_503 \<and> status mock_503 \<in> {429, 502, 503, 504}"
    using request_single_attempt [where transport = "\<lambda>i. if i < 2 then Resolved mock_503 else Resolved mock_user"
        and e = development and endpoint = "''/users/1''" and options = no_options and retries = 3
        and i = 1] run
    by (auto simp: mock_503_def)
  with a b c d run show ?thesis by simp
qed

text \<open>
  A 200 response that declares JSON and whose body read fails with
  \<open>TypeError: Failed to fetch\<close> is retried: two invocations and a wait of one second.
\<close>

theorem request_retries_lost_body:
  "request development (\<lambda>i. if i < 1 then Resolved mock_body_lost else Resolved mock_user)
     ''/users/1'' no_options 3 =
     (Inr (JObj [(''id'', JStr ''1''), (''username'', JStr ''test'')]),
      [Fetch ''http://localhost:7071/api/users/1'' (fetch_init no_options), Timeout 1000,
       Fetch ''http://localhost:7071/api/users/1'' (fetch_init no_options)]) \<and>
   ok mock_body_lost \<and> status mock_body_lost = 200"
  by (simp add: eval_request mock_body_lost_def mock_user_def development_def)

section \<open>Claims about error classification\<close>

text \<open>
  C3. \<open>isRetryableError\<close> is true exactly for a \<open>NetworkError\<close> and for an \<open>ApiError\<close> whose status
  is one of 408, 429, 502, 503, 504; it is false for every \<open>ValidationError\<close>, every other
  status and every other value.
\<close>

theorem isRetryableError_exact:
  "isRetryableError x \<longleftrightarrow>
     (\<exists>m ep. x = NetworkError m ep) \<or>
     (\<exists>s st m ep. x = ApiError s st m ep \<and> s \<in> {408, 429, 502, 503, 504})"
  by (cases x) auto

section \<open>Claims about the Typed Client Facade\<close>

lemma validateRequired_missing:
  assumes "field \<in> set requiredFields"
    and "\<not> truthy (case map_of d field of None \<Rightarrow> JUndefined | Some v \<Rightarrow> v)"
  shows "\<exists>f. validateRequired (JObj d) requiredFields =
               Some (ValidationError (f @ '' is required'') (Some f))"
  using assms by (induction requiredFields) auto


lemma remap_status_Inr: "remap_status n replacement (Inr v, evs) = (Inr v, evs)"
  by (simp add: remap_status_def)


text \<open>
  C5 (amended). Each user and series operation that takes a required input (\<open>createUser\<close>,
  \<open>getUser\<close>, \<open>getUserByEmail\<close>, \<open>getUserByUsername\<close>, \<open>updateUser\<close>, \<open>deleteUser\<close>,
  \<open>createSeries\<close>, \<open>getSeries\<close>, \<open>getUserSeries\<close>, \<open>updateSeries\<close>, \<open>deleteSeries\<close>, \<open>likeSeries\<close>,
  \<open>unlikeSeries\<close>), called with a required identifier empty or a required field missing
  or falsy, throws a \<open>ValidationError\<close> and invokes the transport zero times. The friend and
  favorite-list operations are not among them: they validate nothing.
\<close>

theorem facade_validation:
  "getUser e t [] = (Inl (ValidationError ''User ID is required'' None), []) \<and>
   getUserByEmail e t [] = (Inl (ValidationError ''Email is required'' None), []) \<and>
   getUserByUsername e t [] = (Inl (ValidationError ''Username is required'' None), []) \<and>
   updateUser e t [] updates = (Inl (ValidationError ''User ID is required'' None), []) \<and>
   deleteUser e t [] = (Inl (ValidationError ''User ID is required'' None), []) \<and>
   getSeries e t [] userId = (Inl (ValidationError ''Series ID and User ID are required'' None), []) \<and>
   getSeries e t ident [] = (Inl (ValidationError ''Series ID and User ID are required'' None), []) \<and>
   getUserSeries e t [] = (Inl (ValidationError ''User ID is required'' None), []) \<and>
   updateSeries e t [] userId updates =
     (Inl (ValidationError ''Series ID and User ID are required'' None), []) \<and>
   updateSeries e t ident [] updates =
     (Inl (ValidationError ''Series ID and User ID are required'' None), []) \<and>
   deleteSeries e t [] userId =
     (Inl (ValidationError ''Series ID and User ID are required'' None), []) \<and>
   deleteSeries e t ident [] =
     (Inl (ValidationError ''Series ID and User ID are required'' None), []) \<and>
   likeSeries e t [] seriesUserId userId =
     (Inl (ValidationError ''Series ID, Series User ID, and User ID are required'' None), []) \<and>
   likeSeries e t seriesId [] userId =
     (Inl (ValidationError ''Series ID, Series User ID, and User ID are required'' None), []) \<and>
   likeSeries e t seriesId seriesUserId [] =
     (Inl (ValidationError ''Series ID, Series User ID, and User ID are required'' None), []) \<and>
   unlikeSeries e t [] seriesUserId userId =
     (Inl (ValidationError ''Series ID, Series User ID, and User ID are required'' None), []) \<and>
   unlikeSeries e t seriesId [] userId =
     (Inl (ValidationError ''Series ID, Series User ID, and User ID are required'' None), []) \<and>
   unlikeSeries e t seriesId seriesUserId [] =
     (Inl (ValidationError ''Series ID, Series User ID, and User ID are required'' None), []) \<and>
   (field \<in> set [''username'', ''email'', ''displayName''] \<and>
    \<not> truthy (case map_of userData field of None \<Rightarrow> JUndefined | Some v \<Rightarrow> v) \<longrightarrow>
      (\<exists>f. createUser e t userData =
             (Inl (ValidationError (f @ '' is required'') (Some f)), []))) \<and>
   (field' \<in> set [''title'', ''userId'', ''genre''] \<and>
    \<not> truthy (case map_of seriesData field' of None \<Rightarrow> JUndefined | Some v \<Rightarrow> v) \<longrightarrow>
      (\<exists>f. createSeries e t seriesData =
             (Inl (ValidationError (f @ '' is required'') (Some f)), [])))"
proof -
  have users: "getUser e t [] = (Inl (ValidationError ''User ID is required'' None), [])"
    "getUserByEmail e t [] = (Inl (ValidationError ''Email is required'' None), [])"
    "getUserByUsername e t [] = (Inl (ValidationError ''Username is required'' None), [])"
    "updateUser e t [] updates = (Inl (ValidationError ''User ID is required'' None), [])"
    "deleteUser e t [] = (Inl (ValidationError ''User ID is required'' None), [])"
    by (simp_all add: getUser_def getUserByEmail_def getUserByUsername_def updateUser_def
        deleteUser_def)
  have series: "getSeries e t [] userId = (Inl (ValidationError ''Series ID and User ID are required'' None), [])"
    "getSeries e t ident [] = (Inl (ValidationError ''Series ID and User ID are required'' None), [])"
    "getUserSeries e t [] = (Inl (ValidationError ''User ID is required'' None), [])"
    "updateSeries e t [] userId updates =
       (Inl (ValidationError ''Series ID and User ID are required'' None), [])"
    "updateSeries e t ident [] updates =
       (Inl (ValidationError ''Series ID and User ID are required'' None), [])"
    "deleteSeries e t [] userId =
       (Inl (ValidationError ''Series ID and User ID are required'' None), [])"
    "deleteSeries e t ident [] =
       (Inl (ValidationError ''Series ID and User ID are required'' None), [])"
    by (simp_all add: getSeries_def getUserSeries_def updateSeries_def deleteSeries_def)
  have likes: "likeSeries e t [] seriesUserId userId =
       (Inl (ValidationError ''Series ID, Series User ID, and User ID are required'' None), [])"
    "likeSeries e t seriesId [] userId =
       (Inl (ValidationError ''Series ID, Series User ID, and User ID are required'' None), [])"
    "likeSeries e t seriesId seriesUserId [] =
       (Inl (ValidationError ''Series ID, Series User ID, and User ID are required'' None), [])"
    "unlikeSeries e t [] seriesUserId userId =
       (Inl (ValidationError ''Series ID, Series User ID, and User ID are required'' None), [])"
    "unlikeSeries e t seriesId [] userId =
       (Inl (ValidationError ''Series ID, Series User ID, and User ID are required'' None), [])"
    "unlikeSeries e t seriesId seriesUserId [] =
       (Inl (ValidationError ''Series ID, Series User ID, and User ID are required'' None), [])"
    by (simp_all add: likeSeries_def unlikeSeries_def)
  have create_user: "\<exists>f. createUser e t userData =
             (Inl (ValidationError (f @ '' is required'') (Some f)), [])"
    if "field \<in> set [''username'', ''email'', ''displayName'']"
      and "\<not> truthy (case map_of userData field of None \<Rightarrow> JUndefined | Some v \<Rightarrow> v)"
  proof -
    from validateRequired_missing [OF that] obtain f where
      "validateRequired (JObj userData) [''username'', ''email'', ''displayName''] =
         Some (ValidationError (f @ '' is required'') (Some f))" ..
    then show ?thesis by (simp add: createUser_def)
  qed
  have create_series: "\<exists>f. createSeries e t seriesData =
             (Inl (ValidationError (f @ '' is required'') (Some f)), [])"
    if "field' \<in> set [''title'', ''userId'', ''genre'']"
      and "\<not> truthy (case map_of seriesData field' of None \<Rightarrow> JUndefined | Some v \<Rightarrow> v)"
  proof -
    from validateRequired_missing [OF that] obtain f where
      "validateRequired (JObj seriesData) [''title'', ''userId'', ''genre''] =
         Some (ValidationError (f @ '' is required'') (Some f))" ..
    then show ?thesis by (simp add: createSeries_def)
  qed
  from create_user create_series show ?thesis
    by (simp only: users series likes simp_thms) blast
qed

text \<open>
  The theorem at the two payloads of the test suite: a user without \<open>username\<close>, a series
  with a title only.
\<close>

theorem facade_validation_witness:
  "(\<exists>f. createUser development (\<lambda>i. Resolved mock_user) [(''email'', JStr ''test@example.com'')] =
         (Inl (ValidationError (f @ '' is required'') (Some f)), [])) \<and>
   (\<exists>f. createSeries development (\<lambda>i. Resolved mock_user) [(''title'', JStr ''Test'')] =
         (Inl (ValidationError (f @ '' is required'') (Some f)), []))"
  using facade_validation [where e = development and t = "\<lambda>i. Resolved mock_user"
      and field = "''username''" and userData = "[(''email'', JStr ''test@example.com'')]"
      and field' = "''genre''" and seriesData = "[(''title'', JStr ''Test'')]"]
  by simp

text \<open>\<open>getFriends('')\<close> throws nothing and invokes the transport once, on \<open>/users//friends\<close>.\<close>

theorem getFriends_dispatches_unvalidated:
  "getFriends development (\<lambda>i. Resolved mock_empty_list) [] =
     (Inr (JArr []), [Fetch ''http://localhost:7071/api/users//friends'' (fetch_init no_options)])"
  by (simp add: getFriends_def eval_request mock_empty_list_def development_def)



text \<open>
  C8 (amended). \<open>updateUser\<close> and \<open>updateSeries\<close>, called with an empty update payload, throw a
  \<open>ValidationError\<close> and invoke the transport zero times, whatever the identifiers;
  \<open>updateFavoriteList\<close> validates nothing and sends the empty payload.
\<close>

theorem update_rejects_empty_payload:
  "(\<exists>m. updateUser e t ident [] = (Inl (ValidationError m None), [])) \<and>
   (\<exists>m. updateSeries e t ident userId [] = (Inl (ValidationError m None), []))"
  by (simp add: updateUser_def updateSeries_def)

text \<open>\<open>updateFavoriteList\<close> with no fields issues the \<open>PUT\<close> with body \<open>{}\<close>.\<close>

theorem updateFavoriteList_dispatches_empty_payload:
  "updateFavoriteList development (\<lambda>i. Resolved mock_user) ''user-1'' ''list-1'' [] =
     (Inr (JObj [(''id'', JStr ''1''), (''username'', JStr ''test'')]),
      [Fetch ''http://localhost:7071/api/users/user-1/favorites/list-1''
         \<lparr>http_method = Some ''PUT'',
          headers = Some [(''Content-Type'', ''application/json'')],
          body = Some (JObj [])\<rparr>])"
  by (simp add: updateFavoriteList_def eval_request mock_user_def development_def
      fetch_init_def spread_options_def spread_def send_def)

section \<open>Claims about the Stateful Call Adapter\<close>

text \<open>
  C2. In every state and for every call, \<open>retry\<close> throws "Cannot retry this operation",
  leaves the state as it is and causes no event: the value it classifies is the message
  string held in \<open>error\<close>, never the failure itself, and \<open>isRetryableError\<close> is false for a
  string. So \<open>retry\<close> does not re-invoke \<open>execute\<close> after a retryable failure either.
\<close>

theorem retry_never_executes:
  "retry opts apiCall s = (Inl (Error ''Cannot retry this operation''), s, [])"
  by (simp add: retry_def split: option.split)

text \<open>
  In particular after a \<open>NetworkError\<close>, which \<open>isRetryableError\<close> classifies as retryable:
  \<open>execute\<close> leaves its display message in \<open>error\<close>, and \<open>retry\<close> refuses.
\<close>

lemma retry_after_network_failure:
  "isRetryableError (NetworkError ''Network connection failed.'' ''/users/1'') \<and>
   fst (snd (execute no_callbacks (Inl (NetworkError ''Network connection failed.'' ''/users/1''), [])
               useApi_initial)) =
     \<lparr>loading = False,
      error = Some ''Unable to connect to the server. Please check your internet connection and try again.'',
      data = JNull\<rparr> \<and>
   retry no_callbacks (Inr JNull, [Fetch ''http://localhost:7071/api/users/1'' (fetch_init no_options)])
     \<lparr>loading = False,
      error = Some ''Unable to connect to the server. Please check your internet connection and try again.'',
      data = JNull\<rparr> =
     (Inl (Error ''Cannot retry this operation''),
      \<lparr>loading = False,
       error = Some ''Unable to connect to the server. Please check your internet connection and try again.'',
       data = JNull\<rparr>, [])"
  by (simp add: retry_def execute_def execute_run_def execute_catch_def Let_def call_back_def
      no_callbacks_def useApi_initial_def)













end
